theory Spec2Isabelle
  imports Main "HOL-Library.AList" "HOL-Library.Sublist"
begin

section \<open>The Datadog forwarder subscription step of the serverless plugin\<close>

text \<open>
  A shallow embedding of \<^verbatim>\<open>src/forwarder.ts\<close>. JavaScript strings are \<open>string\<close>,
  \<^verbatim>\<open>s.startsWith(p)\<close> is \<open>prefix p s\<close>, a template literal is list append.
  Every \<^verbatim>\<open>async\<close> function is run to completion: its model returns the value the
  promise settles with, paired with the requests it sent to the AWS client, in order.
\<close>

subsection \<open>Constants\<close>

definition logGroupKey :: string where
  "logGroupKey = ''AWS::Logs::LogGroup''"

definition logGroupSubscriptionKey :: string where
  "logGroupSubscriptionKey = ''AWS::Logs::SubscriptionFilter''"

definition maxAllowableLogGroupSubscriptions :: nat where
  "maxAllowableLogGroupSubscriptions = 2"

subsection \<open>Data\<close>

text \<open>
  What a promise of the module can reject with: the error class of the module (\<open>name\<close>
  is fixed, the payload is \<open>message\<close>), and the \<^verbatim>\<open>TypeError\<close> the runtime raises when
  a member of \<^verbatim>\<open>undefined\<close> is read or a value that is no function is called.
\<close>

datatype error = DatadogForwarderNotFoundError string | TypeError

text \<open>
  \<^verbatim>\<open>CloudFormationObjectArn\<close>: both members are optional. The forwarder ARN is that
  object or a string; \<^verbatim>\<open>typeof functionArn !== "string"\<close> is \<open>\<not> isString\<close>.
\<close>

record CloudFormationObjectArn =
  Fn_Sub :: "string option"
  arn_aws :: "string option"

datatype functionArn =
    isString: ArnString string
  | ArnObject CloudFormationObjectArn

text \<open>
  A resource of the compiled template, an untyped object, by what the source reads of it:
  its \<^verbatim>\<open>Type\<close> and \<^verbatim>\<open>Properties.LogGroupName\<close>.
  \<^item> \<open>LogGroupResource n\<close> has \<^verbatim>\<open>Type\<close> \<^verbatim>\<open>logGroupKey\<close> and the string \<open>n\<close> as
    \<^verbatim>\<open>Properties.LogGroupName\<close>: what the interface \<^verbatim>\<open>LogGroupResource\<close> declares.
  \<^item> \<open>SubscriptionFilterResource d p n\<close> is the object
    \<^verbatim>\<open>{Type: logGroupSubscriptionKey, Properties: {DestinationArn: d, FilterPattern: p,
    LogGroupName: {Ref: n}}}\<close>, the one the loop writes.
  \<^item> \<open>OtherResource t\<close> is any other object, \<open>t\<close> its \<^verbatim>\<open>Type\<close>; it has no string
    at \<^verbatim>\<open>Properties.LogGroupName\<close> (the member or \<^verbatim>\<open>Properties\<close> is absent, or it is
    an object such as \<^verbatim>\<open>{"Fn::Sub": ...}\<close>). With \<open>t = logGroupKey\<close> it is a log group
    that CloudFormation is to name, or whose name is an intrinsic function.

  The type guard \<^verbatim>\<open>isLogGroup\<close> looks at \<^verbatim>\<open>Type\<close> only. \<open>LogGroupName r\<close> is the
  string \<^verbatim>\<open>r.Properties.LogGroupName\<close> when there is one; where it is \<open>None\<close>,
  \<^verbatim>\<open>r.Properties.LogGroupName.startsWith(...)\<close> raises \<^verbatim>\<open>TypeError\<close>.
\<close>

datatype resource =
    LogGroupResource string
  | SubscriptionFilterResource (DestinationArn: functionArn) (FilterPattern: string)
      (LogGroupNameRef: string)
  | OtherResource string

fun Type :: "resource \<Rightarrow> string" where
  "Type (LogGroupResource _) = logGroupKey"
| "Type (SubscriptionFilterResource _ _ _) = logGroupSubscriptionKey"
| "Type (OtherResource t) = t"

definition isLogGroup :: "resource \<Rightarrow> bool" where
  "isLogGroup value = (Type value = logGroupKey)"

fun LogGroupName :: "resource \<Rightarrow> string option" where
  "LogGroupName (LogGroupResource n) = Some n"
| "LogGroupName (SubscriptionFilterResource _ _ _) = None"
| "LogGroupName (OtherResource _) = None"

text \<open>
  \<^verbatim>\<open>Resources\<close> is a JavaScript object: its entries in the order of
  \<^verbatim>\<open>Object.entries\<close>. An assignment \<^verbatim>\<open>resources[k] = v\<close> replaces the value of an
  existing key where it stands and appends a new key (the keys assigned here end in
  \<^verbatim>\<open>Subscription\<close>, so none of them is an array index, which would be listed first):
  that is \<open>AList.update k v\<close>. A read is \<open>map_of\<close>. The keys of an object are
  distinct; where a property depends on it, it assumes \<open>distinct (map fst rs)\<close>.
\<close>

type_synonym resources = "(string \<times> resource) list"

record CloudFormationTemplate =
  Resources :: "resources option"

record Provider =
  compiledCloudFormationTemplate :: "CloudFormationTemplate option"

record Service =
  getServiceName :: string
  provider :: Provider

text \<open>One element of \<^verbatim>\<open>DescribeSubscriptionFiltersResponse.subscriptionFilters\<close>.\<close>

record subscriptionFilter =
  creationTime :: int
  destinationArn :: string
  distribution :: string
  filterName :: string
  filterPattern :: string
  logGroupName :: string
  roleArn :: string

record DescribeSubscriptionFiltersResponse =
  subscriptionFilters :: "subscriptionFilter list"

text \<open>
  The AWS client. \<^verbatim>\<open>aws.request("Lambda", "getFunction", {FunctionName: a})\<close> resolves
  iff \<open>lambda_getFunction aws a\<close>; the request
  \<^verbatim>\<open>aws.request("CloudWatchLogs", "describeSubscriptionFilters", {logGroupName: n})\<close>
  resolves with \<open>r\<close> when \<open>cloudWatchLogs_describeSubscriptionFilters aws n = Some r\<close> and
  rejects when it is \<open>None\<close>. \<^verbatim>\<open>aws.naming.getStackName()\<close> is \<open>None\<close> for
  \<^verbatim>\<open>undefined\<close>. The live account does not change during a run.
\<close>

record Aws =
  lambda_getFunction :: "functionArn \<Rightarrow> bool"
  cloudWatchLogs_describeSubscriptionFilters ::
    "string \<Rightarrow> DescribeSubscriptionFiltersResponse option"
  getStage :: string
  naming_getStackName :: "string option"

datatype awsRequest =
    GetFunction functionArn
  | DescribeSubscriptionFilters string

subsection \<open>\<^verbatim>\<open>validateForwarderArn\<close>\<close>

text \<open>\<^verbatim>\<open>`${functionArn}`\<close>: a string as it is, an object as \<^verbatim>\<open>[object Object]\<close>.\<close>

fun toString :: "functionArn \<Rightarrow> string" where
  "toString (ArnString s) = s"
| "toString (ArnObject _) = ''[object Object]''"

definition validateForwarderArn :: "Aws \<Rightarrow> functionArn \<Rightarrow> (error + unit) \<times> awsRequest list" where
  "validateForwarderArn aws functionArn =
     (if lambda_getFunction aws functionArn then Inr ()
      else Inl (DatadogForwarderNotFoundError
                  (''Could not perform GetFunction on '' @ toString functionArn @ ''.'')),
      [GetFunction functionArn])"

subsection \<open>\<^verbatim>\<open>describeSubscriptionFilters\<close> and \<^verbatim>\<open>canSubscribeLogGroup\<close>\<close>

definition describeSubscriptionFilters ::
  "Aws \<Rightarrow> string \<Rightarrow> subscriptionFilter list \<times> awsRequest list" where
  "describeSubscriptionFilters aws logGroupName' =
     (case cloudWatchLogs_describeSubscriptionFilters aws logGroupName' of
        Some result \<Rightarrow> subscriptionFilters result
      | None \<Rightarrow> [],
      [DescribeSubscriptionFilters logGroupName'])"

text \<open>The \<^verbatim>\<open>for ... of\<close> loop of \<^verbatim>\<open>canSubscribeLogGroup\<close>, on the flag it sets.\<close>

fun foundDatadogSubscriptionFilter :: "string \<Rightarrow> subscriptionFilter list \<Rightarrow> bool \<Rightarrow> bool" where
  "foundDatadogSubscriptionFilter expectedSubName [] found = found"
| "foundDatadogSubscriptionFilter expectedSubName (subscription # rest) found =
     foundDatadogSubscriptionFilter expectedSubName rest
       (if prefix expectedSubName (filterName subscription) then True else found)"

definition canSubscribeLogGroup :: "Aws \<Rightarrow> string \<Rightarrow> string \<Rightarrow> bool \<times> awsRequest list" where
  "canSubscribeLogGroup aws logGroupName' expectedSubName =
     (case describeSubscriptionFilters aws logGroupName' of
        (subscriptionFilters', requested) \<Rightarrow>
          (let numberOfActiveSubscriptionFilters = length subscriptionFilters';
               found = foundDatadogSubscriptionFilter expectedSubName subscriptionFilters' False
           in if \<not> found \<and> numberOfActiveSubscriptionFilters \<ge> maxAllowableLogGroupSubscriptions
              then False else True,
           requested))"

subsection \<open>\<^verbatim>\<open>addCloudWatchForwarderSubscriptions\<close>\<close>

text \<open>Lines 81 to 86: the name a filter of this stack has, up to its random suffix.\<close>

definition truthy :: "string option \<Rightarrow> bool" where
  "truthy s = (case s of None \<Rightarrow> False | Some v \<Rightarrow> v \<noteq> [])"

definition expectedSubName :: "Service \<Rightarrow> Aws \<Rightarrow> string \<Rightarrow> string" where
  "expectedSubName service aws scopedSubName =
     (let expected = getServiceName service @ ''-'' @ getStage aws @ ''-'' @ scopedSubName @ ''-'';
          stackName = naming_getStackName aws
      in if truthy stackName then the stackName @ ''-'' @ scopedSubName @ ''-'' else expected)"

definition subscription :: "functionArn \<Rightarrow> string \<Rightarrow> resource" where
  "subscription functionArn name = SubscriptionFilterResource functionArn [] name"

text \<open>
  The state the loop over \<^verbatim>\<open>Object.entries(resources)\<close> works on: the object
  \<^verbatim>\<open>resources\<close>, the array \<^verbatim>\<open>errors\<close>, the requests sent so far, and the error
  raised, if one was: the loop ends there and the object keeps what was assigned before.
\<close>

record loop_state =
  resources :: resources
  errors :: "string list"
  sent :: "awsRequest list"
  thrown :: "error option"

text \<open>The three messages a run can return, as the source spells them.\<close>

definition noStackAvailable :: string where
  "noStackAvailable =
     ''No cloudformation stack available. Skipping subscribing Datadog forwarder.''"

definition skippingValidation :: string where
  "skippingValidation =
     ''Skipping forwarder ARN validation because forwarder string defined with CloudFormation function.''"

definition tooManyFilters :: "string \<Rightarrow> string" where
  "tooManyFilters logGroupName' =
     ''Could not subscribe Datadog Forwarder due to too many existing subscription filter(s) for ''
       @ logGroupName' @ ''.''"

definition loopBody ::
  "Service \<Rightarrow> Aws \<Rightarrow> functionArn \<Rightarrow> string \<times> resource \<Rightarrow> loop_state \<Rightarrow> loop_state" where
  "loopBody service aws functionArn entry st =
     (case entry of (name, resource) \<Rightarrow>
        if \<not> isLogGroup resource then st
        else
          (case LogGroupName resource of
             None \<Rightarrow> st\<lparr>thrown := Some TypeError\<rparr>
           | Some logGroupName' \<Rightarrow>
               if \<not> prefix ''/aws/lambda/'' logGroupName' then st
               else
                 let scopedSubName = name @ ''Subscription'';
                     expected = expectedSubName service aws scopedSubName;
                     (canSub, asked) = canSubscribeLogGroup aws logGroupName' expected
                 in if \<not> canSub
                    then st\<lparr>errors := errors st @ [tooManyFilters logGroupName'],
                            sent := sent st @ asked\<rparr>
                    else st\<lparr>resources := AList.update scopedSubName
                                            (subscription functionArn name) (resources st),
                            sent := sent st @ asked\<rparr>))"

text \<open>
  \<^verbatim>\<open>Object.entries\<close> is taken once, before the first assignment: the loop runs over the
  entries the object had then, whatever the body writes, and stops at the first entry
  whose body raises.
\<close>

fun forEntries ::
  "Service \<Rightarrow> Aws \<Rightarrow> functionArn \<Rightarrow> (string \<times> resource) list \<Rightarrow> loop_state \<Rightarrow> loop_state" where
  "forEntries service aws functionArn [] st = st"
| "forEntries service aws functionArn (entry # entries) st =
     (let st' = loopBody service aws functionArn entry st
      in if thrown st' = None then forEntries service aws functionArn entries st' else st')"

text \<open>
  A run: what the promise settles with (\<open>Inl\<close> the error it rejects with, \<open>Inr\<close> the array
  it returns), the service object afterwards, and the requests sent.
\<close>

record run =
  outcome :: "error + string list"
  after :: Service
  asked :: "awsRequest list"

definition resourcesOf :: "Service \<Rightarrow> resources option" where
  "resourcesOf service =
     (case compiledCloudFormationTemplate (provider service) of
        None \<Rightarrow> None
      | Some template \<Rightarrow> Resources template)"

definition withResources :: "Service \<Rightarrow> resources \<Rightarrow> Service" where
  "withResources service rs =
     service\<lparr>provider := (provider service)\<lparr>compiledCloudFormationTemplate :=
       map_option (\<lambda>template. template\<lparr>Resources := Some rs\<rparr>)
         (compiledCloudFormationTemplate (provider service))\<rparr>\<rparr>"

definition finish :: "Service \<Rightarrow> loop_state \<Rightarrow> run" where
  "finish service st =
     \<lparr>outcome = (case thrown st of None \<Rightarrow> Inr (errors st) | Some err \<Rightarrow> Inl err),
      after = withResources service (resources st), asked = sent st\<rparr>"

definition addCloudWatchForwarderSubscriptions :: "Service \<Rightarrow> Aws \<Rightarrow> functionArn \<Rightarrow> run" where
  "addCloudWatchForwarderSubscriptions service aws functionArn =
     (case resourcesOf service of
        None \<Rightarrow>
          \<lparr>outcome = Inr [noStackAvailable], after = service, asked = []\<rparr>
      | Some rs \<Rightarrow>
          if \<not> isString functionArn
          then finish service
                 (forEntries service aws functionArn rs
                    \<lparr>resources = rs, errors = [skippingValidation], sent = [], thrown = None\<rparr>)
          else
            (case validateForwarderArn aws functionArn of
               (Inl err, requested) \<Rightarrow> \<lparr>outcome = Inl err, after = service, asked = requested\<rparr>
             | (Inr _, requested) \<Rightarrow>
                 finish service
                   (forEntries service aws functionArn rs
                      \<lparr>resources = rs, errors = [], sent = requested, thrown = None\<rparr>)))"

subsection \<open>What the loop does with one entry\<close>

text \<open>
  An entry \<open>raises\<close> when line 75 raises for it: a log group by its \<^verbatim>\<open>Type\<close> without
  a string to call \<^verbatim>\<open>startsWith\<close> on. It is \<open>admissible\<close> when the body reaches line
  104 for it: a log group whose name starts with \<^verbatim>\<open>/aws/lambda/\<close> and for which
  \<^verbatim>\<open>canSubscribeLogGroup\<close> answers true. \<open>assign\<close> is line 104 for the entry,
  \<open>quotaWarning\<close> what lines 89 to 92 push for it, \<open>filterLookup\<close> the request line 88
  sends for it.
\<close>

definition raises :: "string \<times> resource \<Rightarrow> bool" where
  "raises entry = (isLogGroup (snd entry) \<and> LogGroupName (snd entry) = None)"

fun admissible :: "Service \<Rightarrow> Aws \<Rightarrow> string \<times> resource \<Rightarrow> bool" where
  "admissible service aws (name, LogGroupResource n) =
     (prefix ''/aws/lambda/'' n
      \<and> fst (canSubscribeLogGroup aws n (expectedSubName service aws (name @ ''Subscription''))))"
| "admissible service aws (name, _) = False"

fun quotaWarning :: "Service \<Rightarrow> Aws \<Rightarrow> string \<times> resource \<Rightarrow> string list" where
  "quotaWarning service aws (name, LogGroupResource n) =
     (if prefix ''/aws/lambda/'' n
         \<and> \<not> fst (canSubscribeLogGroup aws n
                    (expectedSubName service aws (name @ ''Subscription'')))
      then [tooManyFilters n] else [])"
| "quotaWarning service aws (name, _) = []"

fun filterLookup :: "string \<times> resource \<Rightarrow> awsRequest list" where
  "filterLookup (name, LogGroupResource n) =
     (if prefix ''/aws/lambda/'' n then [DescribeSubscriptionFilters n] else [])"
| "filterLookup (name, _) = []"

definition assign :: "functionArn \<Rightarrow> string \<times> resource \<Rightarrow> resources \<Rightarrow> resources" where
  "assign functionArn entry rs =
     AList.update (fst entry @ ''Subscription'') (subscription functionArn (fst entry)) rs"

text \<open>
  What a run returns when it is aborted neither by the forwarder check nor by a raising
  entry, in closed form: the warnings of the refused entries in order (after the one
  about a skipped validation), the template with the admissible entries' assignments made
  in order, and one request per log group looked up (after the forwarder lookup).
\<close>

definition quotaWarnings :: "Service \<Rightarrow> Aws \<Rightarrow> (string \<times> resource) list \<Rightarrow> string list" where
  "quotaWarnings service aws entries = concat (map (quotaWarning service aws) entries)"

definition lookups :: "(string \<times> resource) list \<Rightarrow> awsRequest list" where
  "lookups entries = concat (map filterLookup entries)"

definition returned :: "Service \<Rightarrow> Aws \<Rightarrow> functionArn \<Rightarrow> resources \<Rightarrow> run" where
  "returned service aws f rs =
     \<lparr>outcome = Inr ((if isString f then [] else [skippingValidation])
                       @ quotaWarnings service aws rs),
      after = withResources service (fold (assign f) (filter (admissible service aws) rs) rs),
      asked = (if isString f then [GetFunction f] else []) @ lookups rs\<rparr>"

subsection \<open>Sample inputs\<close>

text \<open>
  A live filter with a given name; a client whose forwarder lookup resolves or not, with a
  stack name and the live filters of each log group; a service with a given resource
  section.
\<close>

definition sampleFilter :: "string \<Rightarrow> subscriptionFilter" where
  "sampleFilter name =
     \<lparr>creationTime = 0, destinationArn = ''arn:other'', distribution = ''ByLogStream'',
      filterName = name, filterPattern = [], logGroupName = ''/aws/lambda/func'',
      roleArn = []\<rparr>"

definition sampleAws ::
  "bool \<Rightarrow> string option \<Rightarrow> (string \<Rightarrow> subscriptionFilter list option) \<Rightarrow> Aws" where
  "sampleAws found stack live =
     \<lparr>lambda_getFunction = (\<lambda>a. found),
      cloudWatchLogs_describeSubscriptionFilters =
        (\<lambda>n. map_option (\<lambda>fs. \<lparr>subscriptionFilters = fs\<rparr>) (live n)),
      getStage = ''dev'', naming_getStackName = stack\<rparr>"

definition sampleService :: "resources option \<Rightarrow> Service" where
  "sampleService rs =
     \<lparr>getServiceName = ''svc'',
      provider = \<lparr>compiledCloudFormationTemplate = Some \<lparr>Resources = rs\<rparr>\<rparr>\<rparr>"

text \<open>
  A template and a live account: \<^verbatim>\<open>FuncLogGroup\<close> has two live filters, one of them
  this stack's own; a bucket sits under the key its subscription will take;
  \<^verbatim>\<open>ApiLogGroup\<close> is no function's log group and has two foreign filters;
  \<^verbatim>\<open>BusyLogGroup\<close> has two foreign filters; the log group of \<^verbatim>\<open>NewLogGroup\<close>
  does not exist yet, so the request for its filters fails.
\<close>

definition sampleTemplate :: resources where
  "sampleTemplate =
     [(''FuncLogGroup'', LogGroupResource ''/aws/lambda/func''),
      (''FuncLogGroupSubscription'', OtherResource ''AWS::S3::Bucket''),
      (''ApiLogGroup'', LogGroupResource ''/aws/api-gateway/svc''),
      (''BusyLogGroup'', LogGroupResource ''/aws/lambda/busy''),
      (''NewLogGroup'', LogGroupResource ''/aws/lambda/new'')]"

definition sampleLive :: "string \<Rightarrow> subscriptionFilter list option" where
  "sampleLive n =
     (if n = ''/aws/lambda/func''
      then Some [sampleFilter ''svc-dev-FuncLogGroupSubscription-XYZ'', sampleFilter ''a'']
      else if n = ''/aws/lambda/new'' then None
      else Some [sampleFilter ''a'', sampleFilter ''b''])"

definition sampleSubscribed :: "functionArn \<Rightarrow> resources" where
  "sampleSubscribed f =
     [(''FuncLogGroup'', LogGroupResource ''/aws/lambda/func''),
      (''FuncLogGroupSubscription'', SubscriptionFilterResource f [] ''FuncLogGroup''),
      (''ApiLogGroup'', LogGroupResource ''/aws/api-gateway/svc''),
      (''BusyLogGroup'', LogGroupResource ''/aws/lambda/busy''),
      (''NewLogGroup'', LogGroupResource ''/aws/lambda/new''),
      (''NewLogGroupSubscription'', SubscriptionFilterResource f [] ''NewLogGroup'')]"

text \<open>
  A template with a log group that has no literal name after one that has; and a
  forwarder ARN given by a CloudFormation function.
\<close>

definition unnamedTemplate :: resources where
  "unnamedTemplate =
     [(''NewLogGroup'', LogGroupResource ''/aws/lambda/new''),
      (''UnnamedLogGroup'', OtherResource ''AWS::Logs::LogGroup'')]"

definition sampleObjectArn :: functionArn where
  "sampleObjectArn = ArnObject \<lparr>Fn_Sub = Some ''${Forwarder.Arn}'', arn_aws = None\<rparr>"

section \<open>Properties\<close>

subsection \<open>The quota check\<close>

lemma foundDatadogSubscriptionFilter_iff:
  "foundDatadogSubscriptionFilter p fs found =
     (found \<or> (\<exists>f \<in> set fs. prefix p (filterName f)))"
  by (induction fs arbitrary: found) auto

lemma snd_canSubscribeLogGroup:
  "snd (canSubscribeLogGroup aws lg p) = [DescribeSubscriptionFilters lg]"
  by (simp add: canSubscribeLogGroup_def describeSubscriptionFilters_def)


text \<open>
  Claim C1. \<^verbatim>\<open>canSubscribeLogGroup\<close> answers true when some live filter's name starts
  with the expected prefix, however many filters there are; true when none does and there
  are fewer than two; and false exactly when none does and there are at least two. The
  live filters are those \<^verbatim>\<open>describeSubscriptionFilters\<close> returns.
\<close>

theorem canSubscribeLogGroup_decision:
  "fst (canSubscribeLogGroup aws lg p) =
     ((\<exists>f \<in> set (fst (describeSubscriptionFilters aws lg)). prefix p (filterName f))
      \<or> length (fst (describeSubscriptionFilters aws lg)) < 2)"
proof -
  obtain live requested where described: "describeSubscriptionFilters aws lg = (live, requested)"
    by (cases "describeSubscriptionFilters aws lg")
  have flag: "foundDatadogSubscriptionFilter p live False =
      (\<exists>f \<in> set live. prefix p (filterName f))"
    by (simp add: foundDatadogSubscriptionFilter_iff)
  have "fst (canSubscribeLogGroup aws lg p) =
      (\<not> (\<not> foundDatadogSubscriptionFilter p live False \<and> 2 \<le> length live))"
    by (simp add: canSubscribeLogGroup_def described maxAllowableLogGroupSubscriptions_def)
  also have "\<dots> = ((\<exists>f \<in> set live. prefix p (filterName f)) \<or> length live < 2)"
    unfolding flag by auto
  finally show ?thesis
    by (simp add: described)
qed

theorem canSubscribeLogGroup_decision_witness:
  "fst (canSubscribeLogGroup
          (sampleAws True None
             (\<lambda>n. Some [sampleFilter ''a'', sampleFilter ''b'', sampleFilter ''svc-dev-xy'']))
          ''/aws/lambda/func'' ''svc-dev-'')
   \<and> fst (canSubscribeLogGroup (sampleAws True None (\<lambda>n. Some [sampleFilter ''a'']))
          ''/aws/lambda/func'' ''svc-dev-'')
   \<and> \<not> fst (canSubscribeLogGroup
          (sampleAws True None (\<lambda>n. Some [sampleFilter ''a'', sampleFilter ''b'']))
          ''/aws/lambda/func'' ''svc-dev-'')"
  using
    canSubscribeLogGroup_decision
      [of "sampleAws True None
             (\<lambda>n. Some [sampleFilter ''a'', sampleFilter ''b'', sampleFilter ''svc-dev-xy''])"
          "''/aws/lambda/func''" "''svc-dev-''"]
    canSubscribeLogGroup_decision
      [of "sampleAws True None (\<lambda>n. Some [sampleFilter ''a''])"
          "''/aws/lambda/func''" "''svc-dev-''"]
    canSubscribeLogGroup_decision
      [of "sampleAws True None (\<lambda>n. Some [sampleFilter ''a'', sampleFilter ''b''])"
          "''/aws/lambda/func''" "''svc-dev-''"]
  by (simp add: describeSubscriptionFilters_def sampleAws_def sampleFilter_def)

text \<open>
  Claim C7. When the request for the live filters of a log group fails, whatever the
  reason, \<^verbatim>\<open>describeSubscriptionFilters\<close> returns the empty array (its type has no
  error to pass on), and the quota check answers as it does for a log group with no live
  filter: true.
\<close>

theorem describeSubscriptionFilters_swallows_failure:
  assumes "cloudWatchLogs_describeSubscriptionFilters aws lg = None"
  shows "fst (describeSubscriptionFilters aws lg) = []
    \<and> fst (canSubscribeLogGroup aws lg p)
    \<and> canSubscribeLogGroup aws lg p =
        canSubscribeLogGroup
          (aws\<lparr>cloudWatchLogs_describeSubscriptionFilters :=
                 (cloudWatchLogs_describeSubscriptionFilters aws)
                   (lg := Some \<lparr>subscriptionFilters = []\<rparr>)\<rparr>) lg p"
  using assms
  by (simp add: canSubscribeLogGroup_def describeSubscriptionFilters_def
        maxAllowableLogGroupSubscriptions_def)

theorem describeSubscriptionFilters_swallows_failure_witness:
  "cloudWatchLogs_describeSubscriptionFilters (sampleAws True None (\<lambda>n. None))
     ''/aws/lambda/func'' = None
   \<and> fst (describeSubscriptionFilters (sampleAws True None (\<lambda>n. None)) ''/aws/lambda/func'') = []
   \<and> fst (canSubscribeLogGroup (sampleAws True None (\<lambda>n. None)) ''/aws/lambda/func''
          ''svc-dev-'')"
proof -
  have none: "cloudWatchLogs_describeSubscriptionFilters (sampleAws True None (\<lambda>n. None))
     ''/aws/lambda/func'' = None"
    by (simp add: sampleAws_def)
  show ?thesis
    using none describeSubscriptionFilters_swallows_failure [OF none, of "''svc-dev-''"]
    by blast
qed

subsection \<open>The loop and the run in closed form\<close>

lemma isLogGroup_simps [simp]:
  "isLogGroup (LogGroupResource n)"
  "\<not> isLogGroup (SubscriptionFilterResource d p n)"
  "isLogGroup (OtherResource t) = (t = logGroupKey)"
  by (simp_all add: isLogGroup_def logGroupKey_def logGroupSubscriptionKey_def)

lemma raises_iff: "raises (N, r) = (r = OtherResource logGroupKey)"
  by (cases r) (simp_all add: raises_def)

lemma raises_named:
  "(\<forall>e \<in> set rs. \<not> raises e) =
     (\<forall>e \<in> set rs. isLogGroup (snd e) \<longrightarrow> LogGroupName (snd e) \<noteq> None)"
  by (simp add: raises_def)

lemma admissible_iff:
  "admissible service aws (N, r) =
     (\<exists>L. r = LogGroupResource L \<and> prefix ''/aws/lambda/'' L
        \<and> fst (canSubscribeLogGroup aws L (expectedSubName service aws (N @ ''Subscription''))))"
  by (cases r) simp_all


lemma loopBody_resources:
  "resources (loopBody service aws f entry st) =
     (if admissible service aws entry then assign f entry (resources st) else resources st)"
proof (cases entry)
  case (Pair name resource)
  then show ?thesis
    by (cases resource)
       (simp_all add: loopBody_def assign_def Let_def split: prod.splits)
qed

lemma loopBody_errors:
  "errors (loopBody service aws f entry st) = errors st @ quotaWarning service aws entry"
proof (cases entry)
  case (Pair name resource)
  then show ?thesis
    by (cases resource)
       (simp_all add: loopBody_def Let_def split: prod.splits)
qed

lemma loopBody_sent:
  "sent (loopBody service aws f entry st) = sent st @ filterLookup entry"
proof (cases entry)
  case (Pair name resource)
  show ?thesis
  proof (cases resource)
    case (LogGroupResource n)
    have "\<And>b q. canSubscribeLogGroup aws n
                   (expectedSubName service aws (name @ ''Subscription'')) = (b, q) \<Longrightarrow>
                q = [DescribeSubscriptionFilters n]"
      using snd_canSubscribeLogGroup by (metis snd_conv)
    then show ?thesis
      using Pair LogGroupResource by (auto simp: loopBody_def Let_def split: prod.splits)
  qed (simp_all add: Pair loopBody_def)
qed

lemma loopBody_thrown:
  "thrown (loopBody service aws f entry st) =
     (if raises entry then Some TypeError else thrown st)"
proof (cases entry)
  case (Pair name resource)
  then show ?thesis
    by (cases resource)
       (simp_all add: loopBody_def raises_def Let_def split: prod.splits)
qed

text \<open>When no entry raises, every entry has its turn.\<close>

lemma forEntries_thrown:
  "thrown st = None \<Longrightarrow>
   thrown (forEntries service aws f es st) =
     (if \<exists>e \<in> set es. raises e then Some TypeError else None)"
  by (induction es arbitrary: st) (simp_all add: loopBody_thrown Let_def)

lemma forEntries_resources:
  "thrown st = None \<Longrightarrow> \<forall>e \<in> set es. \<not> raises e \<Longrightarrow>
   resources (forEntries service aws f es st) =
     fold (assign f) (filter (admissible service aws) es) (resources st)"
  by (induction es arbitrary: st) (simp_all add: loopBody_resources loopBody_thrown Let_def)

lemma forEntries_errors:
  "thrown st = None \<Longrightarrow> \<forall>e \<in> set es. \<not> raises e \<Longrightarrow>
   errors (forEntries service aws f es st) = errors st @ quotaWarnings service aws es"
  by (induction es arbitrary: st)
     (simp_all add: loopBody_errors loopBody_thrown quotaWarnings_def Let_def)

lemma forEntries_sent:
  "thrown st = None \<Longrightarrow> \<forall>e \<in> set es. \<not> raises e \<Longrightarrow>
   sent (forEntries service aws f es st) = sent st @ lookups es"
  by (induction es arbitrary: st)
     (simp_all add: loopBody_sent loopBody_thrown lookups_def Let_def)




lemma map_of_assign:
  "map_of (assign f e rs) k =
     (if k = fst e @ ''Subscription'' then Some (subscription f (fst e)) else map_of rs k)"
  by (simp add: assign_def update_conv')

lemma fold_assign_other:
  "k \<notin> (\<lambda>e. fst e @ ''Subscription'') ` set es \<Longrightarrow> map_of (fold (assign f) es rs) k = map_of rs k"
  by (induction es arbitrary: rs) (auto simp: map_of_assign)

lemma fold_assign_keeps:
  "map_of rs (n @ ''Subscription'') = Some (subscription f n) \<Longrightarrow>
   map_of (fold (assign f) es rs) (n @ ''Subscription'') = Some (subscription f n)"
  by (induction es arbitrary: rs) (auto simp: map_of_assign)

lemma fold_assign_written:
  "e \<in> set es \<Longrightarrow>
   map_of (fold (assign f) es rs) (fst e @ ''Subscription'') = Some (subscription f (fst e))"
proof (induction es arbitrary: rs)
  case Nil
  then show ?case by simp
next
  case (Cons x xs)
  show ?case
  proof (cases "e = x")
    case True
    then show ?thesis by (simp add: fold_assign_keeps map_of_assign)
  next
    case False
    with Cons show ?thesis by simp
  qed
qed




lemma keys_fold_assign: "prefix (map fst rs) (map fst (fold (assign f) es rs))"
proof (induction es arbitrary: rs)
  case Nil
  then show ?case by simp
next
  case (Cons x xs)
  have "prefix (map fst rs) (map fst (assign f x rs))"
    by (simp add: assign_def update_keys)
  with Cons.IH [of "assign f x rs"] show ?case
    by (auto intro: prefix_order.trans)
qed

lemma distinct_fold_assign:
  "distinct (map fst rs) \<Longrightarrow> distinct (map fst (fold (assign f) es rs))"
  by (induction es arbitrary: rs) (simp_all add: assign_def distinct_update)

lemma resourcesOf_withResources:
  "resourcesOf service = Some rs \<Longrightarrow> resourcesOf (withResources service rs') = Some rs'"
  by (auto simp: resourcesOf_def withResources_def split: option.splits)





lemma run_cases:
  assumes "resourcesOf service = Some rs"
    and "\<forall>e \<in> set rs. \<not> raises e"
  shows "addCloudWatchForwarderSubscriptions service aws f =
    (if isString f \<and> \<not> lambda_getFunction aws f
     then \<lparr>outcome = Inl (DatadogForwarderNotFoundError
                            (''Could not perform GetFunction on '' @ toString f @ ''.'')),
           after = service, asked = [GetFunction f]\<rparr>
     else returned service aws f rs)"
  using assms
  by (simp add: addCloudWatchForwarderSubscriptions_def validateForwarderArn_def finish_def
        returned_def forEntries_resources forEntries_errors forEntries_sent forEntries_thrown)

lemma run_outcome:
  assumes "resourcesOf service = Some rs"
  shows "outcome (addCloudWatchForwarderSubscriptions service aws f) =
    (if isString f \<and> \<not> lambda_getFunction aws f
     then Inl (DatadogForwarderNotFoundError
                 (''Could not perform GetFunction on '' @ toString f @ ''.''))
     else if \<exists>e \<in> set rs. raises e then Inl TypeError
     else Inr ((if isString f then [] else [skippingValidation]) @ quotaWarnings service aws rs))"
proof (cases "\<exists>e \<in> set rs. raises e")
  case True
  with assms show ?thesis
    by (simp add: addCloudWatchForwarderSubscriptions_def validateForwarderArn_def finish_def
          forEntries_thrown)
next
  case False
  then have "\<forall>e \<in> set rs. \<not> raises e" by simp
  from run_cases [OF assms this, of aws f] False show ?thesis
    by (simp add: returned_def)
qed

lemma run_returned:
  assumes "resourcesOf service = Some rs"
    and "outcome (addCloudWatchForwarderSubscriptions service aws f) = Inr ws"
  shows "addCloudWatchForwarderSubscriptions service aws f = returned service aws f rs"
proof -
  from assms(2) have ok: "\<not> (isString f \<and> \<not> lambda_getFunction aws f)"
    and named: "\<forall>e \<in> set rs. \<not> raises e"
    unfolding run_outcome [OF assms(1)] by (auto split: if_splits)
  from ok show ?thesis
    by (auto simp: run_cases [OF assms(1) named])
qed



subsection \<open>Gates before the loop\<close>

text \<open>
  Claim C8. When the template has no resource section (no compiled template, or one
  without \<^verbatim>\<open>Resources\<close>), whatever the forwarder ARN is, the run returns the one
  message that the step was skipped, rejects with nothing, leaves the service as it was
  and sends no request.
\<close>

theorem no_resources_skips:
  assumes "resourcesOf service = None"
  shows "addCloudWatchForwarderSubscriptions service aws functionArn =
    \<lparr>outcome = Inr [noStackAvailable], after = service, asked = []\<rparr>"
  using assms by (simp add: addCloudWatchForwarderSubscriptions_def)

theorem no_resources_skips_witness:
  "resourcesOf (sampleService None) = None
   \<and> \<not> lambda_getFunction (sampleAws False None (\<lambda>n. None)) (ArnString ''arn:missing'')
   \<and> addCloudWatchForwarderSubscriptions (sampleService None)
        (sampleAws False None (\<lambda>n. None)) (ArnString ''arn:missing'') =
      \<lparr>outcome = Inr [noStackAvailable], after = sampleService None, asked = []\<rparr>"
proof -
  have none: "resourcesOf (sampleService None) = None"
    by (simp add: resourcesOf_def sampleService_def)
  show ?thesis
    using none
      no_resources_skips [OF none, of "sampleAws False None (\<lambda>n. None)" "ArnString ''arn:missing''"]
    by (simp add: sampleAws_def)
qed

text \<open>
  Claim C2. When the template has a resource section and the forwarder ARN is a string
  for which the \<^verbatim>\<open>getFunction\<close> lookup fails, the run rejects with
  \<^verbatim>\<open>DatadogForwarderNotFoundError\<close> (so it returns no warnings at all), the service and
  its template are as before, and the lookup is the only request sent: no log group was
  looked at.
\<close>

theorem missing_forwarder_aborts:
  assumes "resourcesOf service = Some rs"
    and "\<not> lambda_getFunction aws (ArnString arn)"
  shows "addCloudWatchForwarderSubscriptions service aws (ArnString arn) =
    \<lparr>outcome = Inl (DatadogForwarderNotFoundError
                      (''Could not perform GetFunction on '' @ arn @ ''.'')),
     after = service, asked = [GetFunction (ArnString arn)]\<rparr>"
  using assms by (simp add: addCloudWatchForwarderSubscriptions_def validateForwarderArn_def)

theorem missing_forwarder_aborts_witness:
  "resourcesOf (sampleService (Some [(''FuncLogGroup'', LogGroupResource ''/aws/lambda/func'')])) =
     Some [(''FuncLogGroup'', LogGroupResource ''/aws/lambda/func'')]
   \<and> \<not> lambda_getFunction (sampleAws False None (\<lambda>n. Some [])) (ArnString ''arn:missing'')
   \<and> addCloudWatchForwarderSubscriptions
        (sampleService (Some [(''FuncLogGroup'', LogGroupResource ''/aws/lambda/func'')]))
        (sampleAws False None (\<lambda>n. Some [])) (ArnString ''arn:missing'') =
      \<lparr>outcome = Inl (DatadogForwarderNotFoundError ''Could not perform GetFunction on arn:missing.''),
       after = sampleService (Some [(''FuncLogGroup'', LogGroupResource ''/aws/lambda/func'')]),
       asked = [GetFunction (ArnString ''arn:missing'')]\<rparr>"
proof -
  have some: "resourcesOf (sampleService (Some [(''FuncLogGroup'', LogGroupResource ''/aws/lambda/func'')])) =
     Some [(''FuncLogGroup'', LogGroupResource ''/aws/lambda/func'')]"
    by (simp add: resourcesOf_def sampleService_def)
  have missing: "\<not> lambda_getFunction (sampleAws False None (\<lambda>n. Some [])) (ArnString ''arn:missing'')"
    by (simp add: sampleAws_def)
  show ?thesis
    using some missing missing_forwarder_aborts [OF some missing]
    by simp
qed

subsection \<open>The expected name of the filter\<close>

text \<open>
  Claim C9. For a resource named \<open>N\<close> the expected prefix is the stack name, a dash,
  \<open>N\<close>, \<^verbatim>\<open>Subscription-\<close> whenever \<^verbatim>\<open>getStackName()\<close> gives a stack name
  (a non-empty string: the source tests its truthiness), whatever the service name and the
  stage are; otherwise it is the service name, the stage, \<open>N\<close> and \<^verbatim>\<open>Subscription-\<close>,
  joined by dashes. That prefix is the one the loop hands to the quota check for every
  entry it scans.
\<close>

theorem expectedSubName_precedence:
  "(naming_getStackName aws = Some stackName \<and> stackName \<noteq> [] \<longrightarrow>
      expectedSubName service aws (N @ ''Subscription'') =
        stackName @ ''-'' @ N @ ''Subscription'' @ ''-'')
   \<and> (naming_getStackName aws = None \<or> naming_getStackName aws = Some [] \<longrightarrow>
      expectedSubName service aws (N @ ''Subscription'') =
        getServiceName service @ ''-'' @ getStage aws @ ''-'' @ N @ ''Subscription'' @ ''-'')
   \<and> (isLogGroup r \<and> LogGroupName r = Some L \<and> prefix ''/aws/lambda/'' L \<longrightarrow>
      loopBody service aws f (N, r) st =
        (if fst (canSubscribeLogGroup aws L (expectedSubName service aws (N @ ''Subscription'')))
         then st\<lparr>resources := AList.update (N @ ''Subscription'')
                                 (SubscriptionFilterResource f [] N) (resources st),
                 sent := sent st @ [DescribeSubscriptionFilters L]\<rparr>
         else st\<lparr>errors := errors st @ [tooManyFilters L],
                 sent := sent st @ [DescribeSubscriptionFilters L]\<rparr>))"
proof -
  have "snd (canSubscribeLogGroup aws L (expectedSubName service aws (N @ ''Subscription''))) =
        [DescribeSubscriptionFilters L]"
    by (rule snd_canSubscribeLogGroup)
  then show ?thesis
    by (auto simp: expectedSubName_def truthy_def loopBody_def subscription_def Let_def
          split: prod.splits)
qed

theorem expectedSubName_precedence_witness:
  "expectedSubName (sampleService None) (sampleAws True (Some ''stack'') (\<lambda>n. None))
     (''FuncLogGroup'' @ ''Subscription'') = ''stack-FuncLogGroupSubscription-''
   \<and> expectedSubName (sampleService None) (sampleAws True None (\<lambda>n. None))
     (''FuncLogGroup'' @ ''Subscription'') = ''svc-dev-FuncLogGroupSubscription-''
   \<and> expectedSubName (sampleService None) (sampleAws True (Some []) (\<lambda>n. None))
     (''FuncLogGroup'' @ ''Subscription'') = ''svc-dev-FuncLogGroupSubscription-''
   \<and> errors (loopBody (sampleService None)
        (sampleAws True None (\<lambda>n. Some [sampleFilter ''a'', sampleFilter ''b'']))
        (ArnString ''arn:fwd'') (''FuncLogGroup'', LogGroupResource ''/aws/lambda/func'')
        \<lparr>resources = [], errors = [], sent = [], thrown = None\<rparr>) =
       [tooManyFilters ''/aws/lambda/func'']"
  using
    expectedSubName_precedence
      [where aws = "sampleAws True (Some ''stack'') (\<lambda>n. None)" and stackName = "''stack''"
         and service = "sampleService None" and N = "''FuncLogGroup''"]
    expectedSubName_precedence
      [where aws = "sampleAws True None (\<lambda>n. None)" and service = "sampleService None"
         and N = "''FuncLogGroup''"]
    expectedSubName_precedence
      [where aws = "sampleAws True (Some []) (\<lambda>n. None)" and service = "sampleService None"
         and N = "''FuncLogGroup''"]
    expectedSubName_precedence
      [where aws = "sampleAws True None (\<lambda>n. Some [sampleFilter ''a'', sampleFilter ''b''])"
         and service = "sampleService None" and N = "''FuncLogGroup''"
         and r = "LogGroupResource ''/aws/lambda/func''" and L = "''/aws/lambda/func''"
         and f = "ArnString ''arn:fwd''"
         and st = "\<lparr>resources = [], errors = [], sent = [], thrown = None\<rparr>"]
  by (simp add: sampleAws_def sampleService_def sampleFilter_def canSubscribeLogGroup_def
        describeSubscriptionFilters_def maxAllowableLogGroupSubscriptions_def)

subsection \<open>The sample runs\<close>

lemmas sample_defs =
  addCloudWatchForwarderSubscriptions_def resourcesOf_def sampleService_def
  sampleTemplate_def sampleSubscribed_def unnamedTemplate_def sampleObjectArn_def
  sampleAws_def sampleLive_def sampleFilter_def validateForwarderArn_def loopBody_def
  canSubscribeLogGroup_def describeSubscriptionFilters_def expectedSubName_def truthy_def
  finish_def withResources_def subscription_def maxAllowableLogGroupSubscriptions_def
  logGroupKey_def Let_def

lemma sample_run:
  "addCloudWatchForwarderSubscriptions (sampleService (Some sampleTemplate))
     (sampleAws True None sampleLive) f =
   \<lparr>outcome = Inr ((if isString f then [] else [skippingValidation])
                     @ [tooManyFilters ''/aws/lambda/busy'']),
    after = sampleService (Some (sampleSubscribed f)),
    asked = (if isString f then [GetFunction f] else [])
            @ [DescribeSubscriptionFilters ''/aws/lambda/func'',
               DescribeSubscriptionFilters ''/aws/lambda/busy'',
               DescribeSubscriptionFilters ''/aws/lambda/new'']\<rparr>"
  by (simp add: sample_defs)

lemma sample_rerun:
  "addCloudWatchForwarderSubscriptions (sampleService (Some (sampleSubscribed f)))
     (sampleAws True None sampleLive) f =
   \<lparr>outcome = Inr ((if isString f then [] else [skippingValidation])
                     @ [tooManyFilters ''/aws/lambda/busy'']),
    after = sampleService (Some (sampleSubscribed f)),
    asked = (if isString f then [GetFunction f] else [])
            @ [DescribeSubscriptionFilters ''/aws/lambda/func'',
               DescribeSubscriptionFilters ''/aws/lambda/busy'',
               DescribeSubscriptionFilters ''/aws/lambda/new'']\<rparr>"
  by (simp add: sample_defs)



lemma resourcesOf_sampleService: "resourcesOf (sampleService rs) = rs"
  by (simp add: resourcesOf_def sampleService_def)



subsection \<open>Consequences of the closed form\<close>

lemma after_returned:
  "after (returned service aws f rs) =
     withResources service (fold (assign f) (filter (admissible service aws) rs) rs)"
  by (simp add: returned_def)

lemma outcome_returned:
  "outcome (returned service aws f rs) =
     Inr ((if isString f then [] else [skippingValidation]) @ quotaWarnings service aws rs)"
  by (simp add: returned_def)


lemma written_admissible:
  assumes "(N, LogGroupResource L) \<in> set rs"
    and "prefix ''/aws/lambda/'' L"
    and "fst (canSubscribeLogGroup aws L (expectedSubName service aws (N @ ''Subscription'')))"
  shows "map_of (fold (assign f) (filter (admissible service aws) rs) rs) (N @ ''Subscription'') =
           Some (SubscriptionFilterResource f [] N)"
proof -
  have "(N, LogGroupResource L) \<in> set (filter (admissible service aws) rs)"
    using assms by simp
  then have "map_of (fold (assign f) (filter (admissible service aws) rs) rs)
               (fst (N, LogGroupResource L) @ ''Subscription'') =
             Some (subscription f (fst (N, LogGroupResource L)))"
    by (rule fold_assign_written)
  then show ?thesis by (simp add: subscription_def)
qed

lemma untouched_key:
  assumes "\<forall>N L. (N, LogGroupResource L) \<in> set rs \<and> prefix ''/aws/lambda/'' L
             \<and> fst (canSubscribeLogGroup aws L (expectedSubName service aws (N @ ''Subscription'')))
             \<longrightarrow> k \<noteq> N @ ''Subscription''"
  shows "map_of (fold (assign f) (filter (admissible service aws) rs) rs) k = map_of rs k"
proof (rule fold_assign_other)
  show "k \<notin> (\<lambda>e. fst e @ ''Subscription'') ` set (filter (admissible service aws) rs)"
  proof
    assume "k \<in> (\<lambda>e. fst e @ ''Subscription'') ` set (filter (admissible service aws) rs)"
    then obtain N r where e: "(N, r) \<in> set rs" "admissible service aws (N, r)"
      and k: "k = N @ ''Subscription''"
      by auto
    from e(2) obtain L where "r = LogGroupResource L" "prefix ''/aws/lambda/'' L"
      "fst (canSubscribeLogGroup aws L (expectedSubName service aws (N @ ''Subscription'')))"
      by (auto simp: admissible_iff)
    with e(1) assms k show False by blast
  qed
qed











subsection \<open>The assignment\<close>

text \<open>
  Claim C5. Let \<open>N\<close> name an admissible log group resource: a log group whose name
  starts with \<^verbatim>\<open>/aws/lambda/\<close> and for which \<^verbatim>\<open>canSubscribeLogGroup\<close> answers true.
  Then the loop body assigns, under the key \<open>N\<close> followed by \<^verbatim>\<open>Subscription\<close>, the
  subscription filter resource with the empty filter pattern, the forwarder ARN as
  destination and a reference to \<open>N\<close> as log group, whatever the object held under that
  key before; and when \<open>N\<close> is in the template, a run that returns leaves that resource
  under that key.
\<close>

theorem subscription_written:
  assumes "prefix ''/aws/lambda/'' L"
    and "fst (canSubscribeLogGroup aws L (expectedSubName service aws (N @ ''Subscription'')))"
  shows "resources (loopBody service aws f (N, LogGroupResource L) st) =
        AList.update (N @ ''Subscription'') (SubscriptionFilterResource f [] N) (resources st)
    \<and> map_of (resources (loopBody service aws f (N, LogGroupResource L) st))
        (N @ ''Subscription'') = Some (SubscriptionFilterResource f [] N)
    \<and> (\<forall>rs ws. resourcesOf service = Some rs
          \<and> outcome (addCloudWatchForwarderSubscriptions service aws f) = Inr ws
          \<and> (N, LogGroupResource L) \<in> set rs \<longrightarrow>
          (\<exists>rs'. resourcesOf (after (addCloudWatchForwarderSubscriptions service aws f)) = Some rs'
             \<and> map_of rs' (N @ ''Subscription'') = Some (SubscriptionFilterResource f [] N)))"
proof -
  have adm: "admissible service aws (N, LogGroupResource L)"
    using assms by (simp add: admissible_iff)
  have step: "resources (loopBody service aws f (N, LogGroupResource L) st) =
        AList.update (N @ ''Subscription'') (SubscriptionFilterResource f [] N) (resources st)"
    using adm by (simp add: loopBody_resources assign_def subscription_def)
  have read: "map_of (resources (loopBody service aws f (N, LogGroupResource L) st))
        (N @ ''Subscription'') = Some (SubscriptionFilterResource f [] N)"
    by (simp add: step update_conv')
  have run: "\<exists>rs'. resourcesOf (after (addCloudWatchForwarderSubscriptions service aws f)) = Some rs'
             \<and> map_of rs' (N @ ''Subscription'') = Some (SubscriptionFilterResource f [] N)"
    if rs: "resourcesOf service = Some rs"
      and ws: "outcome (addCloudWatchForwarderSubscriptions service aws f) = Inr ws"
      and entry: "(N, LogGroupResource L) \<in> set rs"
    for rs ws
  proof -
    let ?rs' = "fold (assign f) (filter (admissible service aws) rs) rs"
    have "map_of ?rs' (N @ ''Subscription'') = Some (SubscriptionFilterResource f [] N)"
      using entry assms by (rule written_admissible)
    moreover
    have "resourcesOf (after (addCloudWatchForwarderSubscriptions service aws f)) = Some ?rs'"
      by (simp add: run_returned [OF rs ws] after_returned resourcesOf_withResources [OF rs])
    ultimately show ?thesis by blast
  qed
  from step read run show ?thesis by blast
qed

theorem subscription_written_witness:
  "prefix ''/aws/lambda/'' ''/aws/lambda/func''
   \<and> fst (canSubscribeLogGroup (sampleAws True None sampleLive) ''/aws/lambda/func''
          (expectedSubName (sampleService (Some sampleTemplate))
             (sampleAws True None sampleLive) (''FuncLogGroup'' @ ''Subscription'')))
   \<and> resourcesOf (sampleService (Some sampleTemplate)) = Some sampleTemplate
   \<and> (''FuncLogGroup'', LogGroupResource ''/aws/lambda/func'') \<in> set sampleTemplate
   \<and> map_of sampleTemplate ''FuncLogGroupSubscription'' = Some (OtherResource ''AWS::S3::Bucket'')
   \<and> outcome (addCloudWatchForwarderSubscriptions (sampleService (Some sampleTemplate))
        (sampleAws True None sampleLive) (ArnString ''arn:fwd'')) =
      Inr [tooManyFilters ''/aws/lambda/busy'']
   \<and> (\<exists>rs'. resourcesOf (after (addCloudWatchForwarderSubscriptions
                 (sampleService (Some sampleTemplate)) (sampleAws True None sampleLive)
                 (ArnString ''arn:fwd''))) = Some rs'
         \<and> map_of rs' ''FuncLogGroupSubscription'' =
             Some (SubscriptionFilterResource (ArnString ''arn:fwd'') [] ''FuncLogGroup''))"
proof -
  have h1: "prefix ''/aws/lambda/'' ''/aws/lambda/func''"
    by simp
  have h2: "fst (canSubscribeLogGroup (sampleAws True None sampleLive) ''/aws/lambda/func''
              (expectedSubName (sampleService (Some sampleTemplate))
                 (sampleAws True None sampleLive) (''FuncLogGroup'' @ ''Subscription'')))"
    by (simp add: sample_defs)
  have h3: "resourcesOf (sampleService (Some sampleTemplate)) = Some sampleTemplate"
    by (rule resourcesOf_sampleService)
  have h4: "outcome (addCloudWatchForwarderSubscriptions (sampleService (Some sampleTemplate))
              (sampleAws True None sampleLive) (ArnString ''arn:fwd'')) =
            Inr [tooManyFilters ''/aws/lambda/busy'']"
    by (simp add: sample_run)
  have h5: "(''FuncLogGroup'', LogGroupResource ''/aws/lambda/func'') \<in> set sampleTemplate"
    by (simp add: sampleTemplate_def)
  have h6: "map_of sampleTemplate ''FuncLogGroupSubscription'' = Some (OtherResource ''AWS::S3::Bucket'')"
    by (simp add: sampleTemplate_def)
  from subscription_written [OF h1 h2, of "ArnString ''arn:fwd''"] h3 h4 h5
  have "\<exists>rs'. resourcesOf (after (addCloudWatchForwarderSubscriptions
                 (sampleService (Some sampleTemplate)) (sampleAws True None sampleLive)
                 (ArnString ''arn:fwd''))) = Some rs'
         \<and> map_of rs' (''FuncLogGroup'' @ ''Subscription'') =
             Some (SubscriptionFilterResource (ArnString ''arn:fwd'') [] ''FuncLogGroup'')"
    by blast
  with h1 h2 h3 h4 h5 h6 show ?thesis
    by simp
qed

subsection \<open>A forwarder given by a CloudFormation function\<close>




subsection \<open>The frame\<close>

text \<open>
  Claim C10. In a run that returns normally the service changes in its resource section
  only; the keys the template had are still there, in their order, and new keys come after
  them; every key that is not \<open>N\<close> followed by \<^verbatim>\<open>Subscription\<close> for an admissible
  log group resource \<open>N\<close> (type \<^verbatim>\<open>AWS::Logs::LogGroup\<close>, name starting with
  \<^verbatim>\<open>/aws/lambda/\<close>, quota check true) has the value it had, or is still absent; each
  of those derived keys holds the new subscription, whatever resource it held before; and
  the warnings are the one about a skipped validation and those of the refused log
  groups, so an overwritten resource is not reported.
\<close>

theorem only_derived_keys_written:
  assumes "resourcesOf service = Some rs"
    and "outcome (addCloudWatchForwarderSubscriptions service aws f) = Inr ws"
  shows "\<exists>rs'. after (addCloudWatchForwarderSubscriptions service aws f) = withResources service rs'
    \<and> resourcesOf (after (addCloudWatchForwarderSubscriptions service aws f)) = Some rs'
    \<and> prefix (map fst rs) (map fst rs')
    \<and> (\<forall>k. (\<forall>N L. (N, LogGroupResource L) \<in> set rs \<and> prefix ''/aws/lambda/'' L
                 \<and> fst (canSubscribeLogGroup aws L
                          (expectedSubName service aws (N @ ''Subscription'')))
                 \<longrightarrow> k \<noteq> N @ ''Subscription'')
            \<longrightarrow> map_of rs' k = map_of rs k)
    \<and> (\<forall>N L. (N, LogGroupResource L) \<in> set rs \<and> prefix ''/aws/lambda/'' L
            \<and> fst (canSubscribeLogGroup aws L
                     (expectedSubName service aws (N @ ''Subscription'')))
            \<longrightarrow> map_of rs' (N @ ''Subscription'') = Some (SubscriptionFilterResource f [] N))
    \<and> ws = (if isString f then [] else [skippingValidation]) @ quotaWarnings service aws rs"
proof -
  let ?run = "addCloudWatchForwarderSubscriptions service aws f"
  let ?rs' = "fold (assign f) (filter (admissible service aws) rs) rs"
  have run: "?run = returned service aws f rs"
    using assms by (rule run_returned)
  have a: "after ?run = withResources service ?rs'"
    by (simp add: run after_returned)
  have b: "resourcesOf (after ?run) = Some ?rs'"
    by (simp add: a resourcesOf_withResources [OF assms(1)])
  have c: "prefix (map fst rs) (map fst ?rs')"
    by (rule keys_fold_assign)
  have d: "\<forall>k. (\<forall>N L. (N, LogGroupResource L) \<in> set rs \<and> prefix ''/aws/lambda/'' L
                 \<and> fst (canSubscribeLogGroup aws L
                          (expectedSubName service aws (N @ ''Subscription'')))
                 \<longrightarrow> k \<noteq> N @ ''Subscription'')
            \<longrightarrow> map_of ?rs' k = map_of rs k"
    by (intro allI impI) (rule untouched_key)
  have e: "\<forall>N L. (N, LogGroupResource L) \<in> set rs \<and> prefix ''/aws/lambda/'' L
            \<and> fst (canSubscribeLogGroup aws L
                     (expectedSubName service aws (N @ ''Subscription'')))
            \<longrightarrow> map_of ?rs' (N @ ''Subscription'') = Some (SubscriptionFilterResource f [] N)"
    by (blast intro: written_admissible)
  have g: "ws = (if isString f then [] else [skippingValidation]) @ quotaWarnings service aws rs"
    using assms(2) by (simp add: run outcome_returned)
  from a b c d e g show ?thesis by blast
qed

theorem only_derived_keys_written_witness:
  "resourcesOf (sampleService (Some sampleTemplate)) = Some sampleTemplate
   \<and> outcome (addCloudWatchForwarderSubscriptions (sampleService (Some sampleTemplate))
        (sampleAws True None sampleLive) (ArnString ''arn:fwd'')) =
      Inr [tooManyFilters ''/aws/lambda/busy'']
   \<and> after (addCloudWatchForwarderSubscriptions (sampleService (Some sampleTemplate))
        (sampleAws True None sampleLive) (ArnString ''arn:fwd'')) =
      sampleService (Some (sampleSubscribed (ArnString ''arn:fwd'')))
   \<and> map_of sampleTemplate ''FuncLogGroupSubscription'' = Some (OtherResource ''AWS::S3::Bucket'')
   \<and> (\<exists>rs'. resourcesOf (after (addCloudWatchForwarderSubscriptions
                 (sampleService (Some sampleTemplate)) (sampleAws True None sampleLive)
                 (ArnString ''arn:fwd''))) = Some rs'
         \<and> prefix (map fst sampleTemplate) (map fst rs')
         \<and> map_of rs' ''ApiLogGroup'' = map_of sampleTemplate ''ApiLogGroup''
         \<and> map_of rs' ''BusyLogGroupSubscription'' = map_of sampleTemplate ''BusyLogGroupSubscription''
         \<and> map_of rs' (''FuncLogGroup'' @ ''Subscription'') =
             Some (SubscriptionFilterResource (ArnString ''arn:fwd'') [] ''FuncLogGroup''))"
proof -
  have h1: "resourcesOf (sampleService (Some sampleTemplate)) = Some sampleTemplate"
    by (rule resourcesOf_sampleService)
  have h2: "outcome (addCloudWatchForwarderSubscriptions (sampleService (Some sampleTemplate))
              (sampleAws True None sampleLive) (ArnString ''arn:fwd'')) =
            Inr [tooManyFilters ''/aws/lambda/busy'']"
    by (simp add: sample_run)
  have h3: "after (addCloudWatchForwarderSubscriptions (sampleService (Some sampleTemplate))
        (sampleAws True None sampleLive) (ArnString ''arn:fwd'')) =
      sampleService (Some (sampleSubscribed (ArnString ''arn:fwd'')))"
    by (simp add: sample_run)
  have h4: "map_of sampleTemplate ''FuncLogGroupSubscription'' = Some (OtherResource ''AWS::S3::Bucket'')"
    by (simp add: sampleTemplate_def)
  from only_derived_keys_written [OF h1 h2]
  obtain rs' where
    rs': "resourcesOf (after (addCloudWatchForwarderSubscriptions
                 (sampleService (Some sampleTemplate)) (sampleAws True None sampleLive)
                 (ArnString ''arn:fwd''))) = Some rs'"
    and keys: "prefix (map fst sampleTemplate) (map fst rs')"
    and other: "\<forall>k. (\<forall>N L. (N, LogGroupResource L) \<in> set sampleTemplate \<and> prefix ''/aws/lambda/'' L
                 \<and> fst (canSubscribeLogGroup (sampleAws True None sampleLive) L
                          (expectedSubName (sampleService (Some sampleTemplate))
                             (sampleAws True None sampleLive) (N @ ''Subscription'')))
                 \<longrightarrow> k \<noteq> N @ ''Subscription'')
            \<longrightarrow> map_of rs' k = map_of sampleTemplate k"
    and derived: "\<forall>N L. (N, LogGroupResource L) \<in> set sampleTemplate \<and> prefix ''/aws/lambda/'' L
            \<and> fst (canSubscribeLogGroup (sampleAws True None sampleLive) L
                     (expectedSubName (sampleService (Some sampleTemplate))
                        (sampleAws True None sampleLive) (N @ ''Subscription'')))
            \<longrightarrow> map_of rs' (N @ ''Subscription'') =
                  Some (SubscriptionFilterResource (ArnString ''arn:fwd'') [] N)"
    by blast
  have "\<forall>N L. (N, LogGroupResource L) \<in> set sampleTemplate \<and> prefix ''/aws/lambda/'' L
                 \<and> fst (canSubscribeLogGroup (sampleAws True None sampleLive) L
                          (expectedSubName (sampleService (Some sampleTemplate))
                             (sampleAws True None sampleLive) (N @ ''Subscription'')))
                 \<longrightarrow> ''ApiLogGroup'' \<noteq> N @ ''Subscription''"
    by (auto simp: sampleTemplate_def)
  then have api: "map_of rs' ''ApiLogGroup'' = map_of sampleTemplate ''ApiLogGroup''"
    using other by blast
  have "\<forall>N L. (N, LogGroupResource L) \<in> set sampleTemplate \<and> prefix ''/aws/lambda/'' L
                 \<and> fst (canSubscribeLogGroup (sampleAws True None sampleLive) L
                          (expectedSubName (sampleService (Some sampleTemplate))
                             (sampleAws True None sampleLive) (N @ ''Subscription'')))
                 \<longrightarrow> ''BusyLogGroupSubscription'' \<noteq> N @ ''Subscription''"
    by (auto simp: sample_defs)
  then have busy: "map_of rs' ''BusyLogGroupSubscription'' =
      map_of sampleTemplate ''BusyLogGroupSubscription''"
    using other by blast
  have "(''FuncLogGroup'', LogGroupResource ''/aws/lambda/func'') \<in> set sampleTemplate
      \<and> prefix ''/aws/lambda/'' ''/aws/lambda/func''
      \<and> fst (canSubscribeLogGroup (sampleAws True None sampleLive) ''/aws/lambda/func''
              (expectedSubName (sampleService (Some sampleTemplate))
                 (sampleAws True None sampleLive) (''FuncLogGroup'' @ ''Subscription'')))"
    by (simp add: sample_defs)
  then have func: "map_of rs' (''FuncLogGroup'' @ ''Subscription'') =
             Some (SubscriptionFilterResource (ArnString ''arn:fwd'') [] ''FuncLogGroup'')"
    using derived by blast
  note api busy func
  with h1 h2 h3 h4 rs' keys show ?thesis by blast
qed

subsection \<open>The quota\<close>



subsection \<open>Running twice\<close>





end
